theory Spec2Isabelle
  imports Main
begin

section \<open>Message model (types.ts)\<close>

datatype AgentMode = ORCHESTRATOR | CODER | ARTIST | SPEAKER | ANALYST

datatype message_role = User | Model | System

datatype message_type = Text | Image | Audio | Code | Error

record web_source =
  uri :: string
  title :: string

record message_metadata =
  imageUrl :: "string option"
  audioData :: "string option"
  codeLanguage :: "string option"
  thinking :: "bool option"
  webSources :: "web_source list option"

text \<open>
  The service functions return \<^verbatim>\<open>Partial<Message>\<close>: every field may be absent
  (\<open>None\<close>). The field \<^verbatim>\<open>id\<close> is \<open>msg_id\<close> here, \<^verbatim>\<open>type\<close> is \<open>msg_type\<close>.
\<close>

record message =
  msg_id :: "string option"
  role :: "message_role option"
  content :: "string option"
  msg_type :: "message_type option"
  timestamp :: "nat option"
  metadata :: "message_metadata option"

definition no_metadata :: message_metadata where
  "no_metadata = \<lparr>imageUrl = None, audioData = None, codeLanguage = None,
     thinking = None, webSources = None\<rparr>"

section \<open>JavaScript values\<close>

text \<open>
  A value of static type \<^verbatim>\<open>string\<close> that may be \<^verbatim>\<open>undefined\<close> at run time is a
  \<open>string option\<close>. The empty string and \<^verbatim>\<open>undefined\<close> are the falsy ones.
\<close>

definition truthy :: "string option \<Rightarrow> bool" where
  "truthy v = (case v of None \<Rightarrow> False | Some s \<Rightarrow> s \<noteq> [])"

text \<open>\<^verbatim>\<open>v || d\<close> on such a value.\<close>

definition or_else :: "string option \<Rightarrow> string \<Rightarrow> string" where
  "or_else v d = (case v of None \<Rightarrow> d | Some s \<Rightarrow> if s = [] then d else s)"

text \<open>\<^verbatim>\<open>${v}\<close> inside a template literal.\<close>

definition template :: "string option \<Rightarrow> string" where
  "template v = (case v of None \<Rightarrow> ''undefined'' | Some s \<Rightarrow> s)"

text \<open>
  What \<^verbatim>\<open>catch (error: any)\<close> receives is any value. Of a value other than
  \<^verbatim>\<open>undefined\<close> and \<^verbatim>\<open>null\<close> (an \<^verbatim>\<open>Error\<close> object, as a rule) the
  code reads the property \<^verbatim>\<open>message\<close> only, so such a value is its optional
  message.
\<close>

datatype js_error = JsError (message: "string option")

datatype thrown = ThrownUndefined | ThrownNull | Thrown js_error

definition nullish :: "thrown \<Rightarrow> bool" where
  "nullish t = (case t of ThrownUndefined \<Rightarrow> True | ThrownNull \<Rightarrow> True | Thrown e \<Rightarrow> False)"

text \<open>
  Reading property \<open>key\<close> of \<^verbatim>\<open>undefined\<close> or of \<^verbatim>\<open>null\<close> raises a
  TypeError (V8's wording).
\<close>

definition type_error_undefined :: "string \<Rightarrow> js_error" where
  "type_error_undefined key = JsError (Some
     (''Cannot read properties of undefined (reading '' @ [CHR 0x27] @ key @ [CHR 0x27] @ '')''))"

definition type_error_null :: "string \<Rightarrow> js_error" where
  "type_error_null key = JsError (Some
     (''Cannot read properties of null (reading '' @ [CHR 0x27] @ key @ [CHR 0x27] @ '')''))"

text \<open>\<^verbatim>\<open>s.split(sep)\<close> for a one-character separator.\<close>

fun split :: "char \<Rightarrow> string \<Rightarrow> string list" where
  "split sep [] = [[]]"
| "split sep (c # cs) =
     (if c = sep then [] # split sep cs
      else (case split sep cs of
              [] \<Rightarrow> [[c]]
            | seg # segs \<Rightarrow> (c # seg) # segs))"

text \<open>\<^verbatim>\<open>xs[i]\<close>: \<^verbatim>\<open>undefined\<close> out of range.\<close>

fun index :: "'a list \<Rightarrow> nat \<Rightarrow> 'a option" where
  "index [] i = None"
| "index (x # xs) 0 = Some x"
| "index (x # xs) (Suc i) = index xs i"

section \<open>The remote service (@google/genai)\<close>

subsection \<open>Responses, as far as the code reads them\<close>

record inline_blob =
  data :: "string option"
  mimeType :: "string option"

record part =
  inlineData :: "inline_blob option"
  part_text :: "string option"

record candidate_content =
  parts :: "part list option"

record grounding_web =
  web_uri :: "string option"
  web_title :: "string option"

record grounding_chunk =
  web :: "grounding_web option"

record grounding_metadata =
  groundingChunks :: "grounding_chunk list option"

record candidate =
  cand_content :: "candidate_content option"
  groundingMetadata :: "grounding_metadata option"

text \<open>
  A function call carries a name and an object of named arguments; the declared
  arguments are all of type STRING, so the object is a map from names to strings.
\<close>

record function_call =
  name :: "string option"
  args :: "(string \<rightharpoonup> string) option"

record response =
  functionCalls :: "function_call list option"
  resp_text :: "string option"
  candidates :: "candidate list option"

subsection \<open>Requests\<close>

datatype request_part =
  TextPart "string option"
| InlineDataPart string "string option"

datatype request_contents =
  Plain "string option"
| Parts "request_part list"

datatype modality = AUDIO

record function_declaration =
  fd_name :: string
  fd_description :: string
  fd_properties :: "(string \<times> string) list"
  fd_required :: "string list"

datatype tool =
  FunctionDeclarations "function_declaration list"
| GoogleSearch

record generation_config =
  tools :: "tool list option"
  systemInstruction :: "string option"
  thinkingBudget :: "nat option"
  responseModalities :: "modality list option"
  voiceName :: "string option"

definition no_config :: generation_config where
  "no_config = \<lparr>tools = None, systemInstruction = None, thinkingBudget = None,
     responseModalities = None, voiceName = None\<rparr>"

record request =
  model :: string
  contents :: request_contents
  config :: "generation_config option"

subsection \<open>Asynchronous calls\<close>

text \<open>
  The remote service is a function from a request to a failure or a response. An
  asynchronous computation yields the requests it has sent, in order, and either the
  thrown value (\<open>Inl\<close>, a rejected promise) or its value (\<open>Inr\<close>). Console output
  is not modelled; \<^verbatim>\<open>Date.now()\<close> is the parameter \<open>now\<close>.
\<close>

type_synonym remote = "request \<Rightarrow> thrown + response"

type_synonym 'a promise = "request list \<times> (thrown + 'a)"

definition resolve :: "'a \<Rightarrow> 'a promise" where
  "resolve x = ([], Inr x)"

definition throw :: "thrown \<Rightarrow> 'a promise" where
  "throw e = ([], Inl e)"

definition await :: "'a promise \<Rightarrow> ('a \<Rightarrow> 'b promise) \<Rightarrow> 'b promise" where
  "await p k =
     (case p of
        (sent, Inl e) \<Rightarrow> (sent, Inl e)
      | (sent, Inr x) \<Rightarrow> (case k x of (sent', r) \<Rightarrow> (sent @ sent', r)))"

definition try_catch :: "'a promise \<Rightarrow> (thrown \<Rightarrow> 'a promise) \<Rightarrow> 'a promise" where
  "try_catch p h =
     (case p of
        (sent, Inl e) \<Rightarrow> (case h e of (sent', r) \<Rightarrow> (sent @ sent', r))
      | (sent, Inr x) \<Rightarrow> (sent, Inr x))"

definition generateContent :: "remote \<Rightarrow> request \<Rightarrow> response promise" where
  "generateContent ai req = ([req], ai req)"

text \<open>\<^verbatim>\<open>response.candidates?.[0]\<close>\<close>

definition first_candidate :: "response \<Rightarrow> candidate option" where
  "first_candidate r = (case candidates r of None \<Rightarrow> None | Some cs \<Rightarrow> index cs 0)"

text \<open>\<^verbatim>\<open>response.candidates?.[0]?.content?.parts\<close>\<close>

definition candidate_parts :: "response \<Rightarrow> part list option" where
  "candidate_parts r =
     (case first_candidate r of
        None \<Rightarrow> None
      | Some c \<Rightarrow> (case cand_content c of None \<Rightarrow> None | Some ct \<Rightarrow> parts ct))"

section \<open>Tool definitions for the orchestrator router\<close>

definition orchestratorTools :: "tool list" where
  "orchestratorTools =
    [FunctionDeclarations
      [\<lparr>fd_name = ''dispatch_create_image'',
        fd_description = ''Routes the request to the Artist Agent to generate an image. Use this when the user asks to draw, paint, or create a picture.'',
        fd_properties = [(''prompt'', ''The detailed visual description of the image to generate.'')],
        fd_required = [''prompt'']\<rparr>,
       \<lparr>fd_name = ''dispatch_speak_text'',
        fd_description = ''Routes the request to the Speaker Agent to convert text to audio. Use this when the user explicitly asks to 'say', 'speak', or 'read aloud' something.'',
        fd_properties = [(''text'', ''The text to be spoken.'')],
        fd_required = [''text'']\<rparr>,
       \<lparr>fd_name = ''dispatch_write_code'',
        fd_description = ''Routes the request to the Expert Coder Agent. Use this for complex programming tasks, debugging, or writing complete scripts.'',
        fd_properties = [(''task_description'', ''The description of the coding task.'')],
        fd_required = [''task_description'']\<rparr>],
     GoogleSearch]"

definition orchestratorInstruction :: string where
  "orchestratorInstruction =
     ''You are Nexus, an intelligent orchestration hub. '' @ [CHR 0x0A] @
     ''      Your job is to ROUTE the user's request to the correct specialized agent using the available tools.'' @ [CHR 0x0A] @
     ''      - If the user wants an image, call 'dispatch_create_image'.'' @ [CHR 0x0A] @
     ''      - If the user wants code, call 'dispatch_write_code'.'' @ [CHR 0x0A] @
     ''      - If the user wants speech, call 'dispatch_speak_text'.'' @ [CHR 0x0A] @
     ''      - If the user asks for real-time information, news, or facts, use the built-in Google Search.'' @ [CHR 0x0A] @
     ''      - Otherwise, answer the query directly using your own knowledge.''"

section \<open>Specialized agent functions (services/geminiService.ts)\<close>

subsection \<open>generateText\<close>

definition text_request :: "string option \<Rightarrow> request" where
  "text_request prompt =
     \<lparr>model = ''gemini-2.5-flash'', contents = Plain prompt, config = None\<rparr>"

definition generateText ::
  "remote \<Rightarrow> nat \<Rightarrow> string option \<Rightarrow> message list \<Rightarrow> message promise" where
  "generateText ai now prompt history =
     await (generateContent ai (text_request prompt)) (\<lambda>response.
       resolve \<lparr>msg_id = None, role = Some Model,
         content = Some (or_else (resp_text response) ''No response text.''),
         msg_type = Some Text, timestamp = Some now, metadata = None\<rparr>)"

subsection \<open>generateCode\<close>

definition code_request :: "string option \<Rightarrow> request" where
  "code_request prompt =
     \<lparr>model = ''gemini-3-pro-preview'', contents = Plain prompt,
      config = Some (no_config\<lparr>
        systemInstruction := Some ''You are an expert Senior Software Engineer. Write clean, efficient, and well-documented code.'',
        thinkingBudget := Some 2048\<rparr>)\<rparr>"

definition generateCode ::
  "remote \<Rightarrow> nat \<Rightarrow> string option \<Rightarrow> message list \<Rightarrow> message promise" where
  "generateCode ai now prompt history =
     await (generateContent ai (code_request prompt)) (\<lambda>response.
       resolve \<lparr>msg_id = None, role = Some Model,
         content = Some (or_else (resp_text response) ''// No code generated''),
         msg_type = Some Code, timestamp = Some now,
         metadata = Some (no_metadata\<lparr>codeLanguage := Some ''typescript''\<rparr>)\<rparr>)"

subsection \<open>generateImage\<close>

definition image_request :: "string option \<Rightarrow> request" where
  "image_request prompt =
     \<lparr>model = ''gemini-2.5-flash-image'', contents = Plain prompt, config = None\<rparr>"

text \<open>
  The loop over the parts, on the pair of the variables \<^verbatim>\<open>imageUrl\<close> (\<open>url\<close>) and
  \<^verbatim>\<open>text\<close> (\<open>txt\<close>): a later part overwrites what an earlier one has set.
\<close>

fun image_parts_loop :: "part list \<Rightarrow> string \<times> string \<Rightarrow> string \<times> string" where
  "image_parts_loop [] (url, txt) = (url, txt)"
| "image_parts_loop (p # ps) (url, txt) =
     (case inlineData p of
        Some blob \<Rightarrow>
          image_parts_loop ps (''data:image/png;base64,'' @ template (data blob), txt)
      | None \<Rightarrow>
          (case part_text p of
             None \<Rightarrow> image_parts_loop ps (url, txt)
           | Some t \<Rightarrow>
               if t \<noteq> [] then image_parts_loop ps (url, t)
               else image_parts_loop ps (url, txt)))"

definition generateImage :: "remote \<Rightarrow> nat \<Rightarrow> string option \<Rightarrow> message promise" where
  "generateImage ai now prompt =
     await (generateContent ai (image_request prompt)) (\<lambda>response.
       let (url, txt) =
             (case candidate_parts response of
                None \<Rightarrow> ([], [])
              | Some ps \<Rightarrow> image_parts_loop ps ([], []))
       in if url = [] then
            resolve \<lparr>msg_id = None, role = Some Model,
              content = Some ''I couldn't generate an image. Please try a different prompt.'',
              msg_type = Some Text, timestamp = Some now, metadata = None\<rparr>
          else
            resolve \<lparr>msg_id = None, role = Some Model,
              content = Some (or_else (Some txt) (''Generated: '' @ template prompt)),
              msg_type = Some Image, timestamp = Some now,
              metadata = Some (no_metadata\<lparr>imageUrl := Some url\<rparr>)\<rparr>)"

subsection \<open>generateSpeech\<close>

definition speech_request :: "string option \<Rightarrow> request" where
  "speech_request prompt =
     \<lparr>model = ''gemini-2.5-flash-preview-tts'', contents = Parts [TextPart prompt],
      config = Some (no_config\<lparr>
        responseModalities := Some [AUDIO], voiceName := Some ''Kore''\<rparr>)\<rparr>"

text \<open>\<^verbatim>\<open>parts?.[0]?.inlineData?.data\<close>\<close>

definition first_audio_data :: "part list option \<Rightarrow> string option" where
  "first_audio_data ps =
     (case ps of
        None \<Rightarrow> None
      | Some ps' \<Rightarrow>
          (case index ps' 0 of
             None \<Rightarrow> None
           | Some p \<Rightarrow> (case inlineData p of None \<Rightarrow> None | Some blob \<Rightarrow> data blob)))"

definition generateSpeech :: "remote \<Rightarrow> nat \<Rightarrow> string option \<Rightarrow> message promise" where
  "generateSpeech ai now prompt =
     await (generateContent ai (speech_request prompt)) (\<lambda>response.
       let audio = first_audio_data (candidate_parts response)
       in if \<not> truthy audio then
            throw (Thrown (JsError (Some ''Audio data missing in response'')))
          else
            resolve \<lparr>msg_id = None, role = Some Model,
              content = Some ''Audio output generated.'',
              msg_type = Some Audio, timestamp = Some now,
              metadata = Some (no_metadata\<lparr>audioData := audio\<rparr>)\<rparr>)"

subsection \<open>analyzeContent\<close>

text \<open>The parts array: the prompt, with the image put in front when there is one.\<close>

definition analyze_parts :: "string option \<Rightarrow> string option \<Rightarrow> request_part list" where
  "analyze_parts prompt imageBase64 =
     (case imageBase64 of
        None \<Rightarrow> [TextPart prompt]
      | Some img \<Rightarrow>
          if img \<noteq> []
          then [InlineDataPart ''image/png'' (index (split CHR '','' img) 1), TextPart prompt]
          else [TextPart prompt])"

definition analyze_request :: "string option \<Rightarrow> string option \<Rightarrow> request" where
  "analyze_request prompt imageBase64 =
     \<lparr>model = ''gemini-2.5-flash'', contents = Parts (analyze_parts prompt imageBase64),
      config = Some (no_config\<lparr>
        systemInstruction := Some ''You are a visual data analyst. Analyze the provided image/data and the text request.''\<rparr>)\<rparr>"

definition analyzeContent ::
  "remote \<Rightarrow> nat \<Rightarrow> string option \<Rightarrow> message list \<Rightarrow> string option \<Rightarrow> message promise" where
  "analyzeContent ai now prompt history imageBase64 =
     await (generateContent ai (analyze_request prompt imageBase64)) (\<lambda>response.
       resolve \<lparr>msg_id = None, role = Some Model,
         content = Some (or_else (resp_text response) ''Analysis complete.''),
         msg_type = Some Text, timestamp = Some now, metadata = None\<rparr>)"

section \<open>The hub: runOrchestrator\<close>

definition orchestrator_request :: "string option \<Rightarrow> request" where
  "orchestrator_request prompt =
     \<lparr>model = ''gemini-2.5-flash'', contents = Plain prompt,
      config = Some (no_config\<lparr>
        tools := Some orchestratorTools,
        systemInstruction := Some orchestratorInstruction\<rparr>)\<rparr>"

text \<open>\<^verbatim>\<open>args.key\<close> after \<^verbatim>\<open>const args = call.args as any\<close>\<close>

definition call_arg :: "function_call \<Rightarrow> string \<Rightarrow> (string option) promise" where
  "call_arg call key =
     (case args call of
        None \<Rightarrow> throw (Thrown (type_error_undefined key))
      | Some a \<Rightarrow> resolve (a key))"

text \<open>The \<^verbatim>\<open>forEach\<close> over the grounding chunks, pushing onto \<^verbatim>\<open>webSources\<close>.\<close>

fun push_web_sources :: "grounding_chunk list \<Rightarrow> web_source list \<Rightarrow> web_source list" where
  "push_web_sources [] sources = sources"
| "push_web_sources (chunk # chunks) sources =
     (case web chunk of
        Some w \<Rightarrow>
          push_web_sources chunks
            (sources @ [\<lparr>uri = or_else (web_uri w) [], title = or_else (web_title w) ''Source''\<rparr>])
      | None \<Rightarrow> push_web_sources chunks sources)"

text \<open>\<^verbatim>\<open>response.candidates?.[0]?.groundingMetadata?.groundingChunks\<close>\<close>

definition grounding_chunks_of :: "response \<Rightarrow> grounding_chunk list option" where
  "grounding_chunks_of r =
     (case first_candidate r of
        None \<Rightarrow> None
      | Some c \<Rightarrow> (case groundingMetadata c of None \<Rightarrow> None | Some g \<Rightarrow> groundingChunks g))"

definition collect_web_sources :: "response \<Rightarrow> web_source list" where
  "collect_web_sources r =
     (case grounding_chunks_of r of
        None \<Rightarrow> []
      | Some chunks \<Rightarrow> push_web_sources chunks [])"

text \<open>Step 2 of the hub: the text answer with its grounding.\<close>

definition text_answer :: "nat \<Rightarrow> response \<Rightarrow> message promise" where
  "text_answer now response =
     (let sources = collect_web_sources response
      in resolve \<lparr>msg_id = None, role = Some Model,
           content = Some (or_else (resp_text response) ''I processed that request.''),
           msg_type = Some Text, timestamp = Some now,
           metadata = Some (no_metadata\<lparr>
             webSources := (if length sources > 0 then Some sources else None)\<rparr>)\<rparr>)"

text \<open>Step 1 of the hub: the router, on the first function call only.\<close>

definition route_call ::
  "remote \<Rightarrow> nat \<Rightarrow> message list \<Rightarrow> response \<Rightarrow> function_call \<Rightarrow> message promise" where
  "route_call ai now history response call =
     (if name call = Some ''dispatch_create_image'' then
        await (call_arg call ''prompt'') (\<lambda>v. generateImage ai now v)
      else if name call = Some ''dispatch_speak_text'' then
        await (call_arg call ''text'') (\<lambda>v. generateSpeech ai now v)
      else if name call = Some ''dispatch_write_code'' then
        await (call_arg call ''task_description'') (\<lambda>v. generateCode ai now v history)
      else text_answer now response)"

definition runOrchestrator ::
  "remote \<Rightarrow> nat \<Rightarrow> string option \<Rightarrow> message list \<Rightarrow> string option \<Rightarrow> message promise" where
  "runOrchestrator ai now prompt history imageAttachment =
     (if truthy imageAttachment then analyzeContent ai now prompt history imageAttachment
      else
        await (generateContent ai (orchestrator_request prompt)) (\<lambda>response.
          case functionCalls response of
            Some (call # others) \<Rightarrow> route_call ai now history response call
          | _ \<Rightarrow> text_answer now response))"

section \<open>The dispatch table: generateResponse\<close>

text \<open>The body of the \<^verbatim>\<open>try\<close> block.\<close>

definition generateResponse_try ::
  "remote \<Rightarrow> nat \<Rightarrow> string \<Rightarrow> AgentMode \<Rightarrow> message list \<Rightarrow> string option \<Rightarrow> message promise" where
  "generateResponse_try ai now prompt mode history imageAttachment =
     (if mode = ORCHESTRATOR then runOrchestrator ai now (Some prompt) history imageAttachment
      else
        (case mode of
           ARTIST \<Rightarrow> generateImage ai now (Some prompt)
         | SPEAKER \<Rightarrow> generateSpeech ai now (Some prompt)
         | CODER \<Rightarrow> generateCode ai now (Some prompt) history
         | ANALYST \<Rightarrow> analyzeContent ai now (Some prompt) history imageAttachment
         | _ \<Rightarrow> runOrchestrator ai now (Some prompt) history imageAttachment))"

text \<open>
  The \<^verbatim>\<open>catch\<close> block: the message it returns for a value that has properties,
  and the block itself, where reading \<^verbatim>\<open>error.message\<close> of \<^verbatim>\<open>undefined\<close> or
  \<^verbatim>\<open>null\<close> throws.
\<close>

definition error_message :: "nat \<Rightarrow> js_error \<Rightarrow> message" where
  "error_message now error =
     \<lparr>msg_id = None, role = Some Model,
      content = Some (''System Error: '' @ or_else (message error) ''Unknown error occurred.''),
      msg_type = Some Error, timestamp = Some now, metadata = None\<rparr>"

definition catch_block :: "nat \<Rightarrow> thrown \<Rightarrow> message promise" where
  "catch_block now error =
     (case error of
        ThrownUndefined \<Rightarrow> throw (Thrown (type_error_undefined ''message''))
      | ThrownNull \<Rightarrow> throw (Thrown (type_error_null ''message''))
      | Thrown e \<Rightarrow> resolve (error_message now e))"

definition generateResponse ::
  "remote \<Rightarrow> nat \<Rightarrow> string \<Rightarrow> AgentMode \<Rightarrow> message list \<Rightarrow> string option \<Rightarrow> message promise" where
  "generateResponse ai now prompt mode history imageAttachment =
     try_catch (generateResponse_try ai now prompt mode history imageAttachment)
       (catch_block now)"

section \<open>Notions used in the statements\<close>

text \<open>A remote service that answers every request with the same response.\<close>

definition const_remote :: "response \<Rightarrow> remote" where
  "const_remote r = (\<lambda>req. Inr r)"

text \<open>The outcome of a remote call is a rejection with \<^verbatim>\<open>undefined\<close> or \<^verbatim>\<open>null\<close>.\<close>

definition rejects_nullish :: "thrown + response \<Rightarrow> bool" where
  "rejects_nullish outcome = (case outcome of Inl t \<Rightarrow> nullish t | Inr r \<Rightarrow> False)"

text \<open>A remote service whose every call is rejected with the same value.\<close>

definition rejecting_remote :: "thrown \<Rightarrow> remote" where
  "rejecting_remote t = (\<lambda>req. Inl t)"

definition empty_response :: response where
  "empty_response = \<lparr>functionCalls = None, resp_text = None, candidates = None\<rparr>"

text \<open>
  The parts of the first candidate (none when the chain
  \<^verbatim>\<open>candidates?.[0]?.content?.parts\<close> is undefined), the inline payloads among them,
  and the captions: the non-empty texts of the parts without an inline payload.
\<close>

definition response_parts :: "response \<Rightarrow> part list" where
  "response_parts r = (case candidate_parts r of None \<Rightarrow> [] | Some ps \<Rightarrow> ps)"

definition inline_images :: "part list \<Rightarrow> inline_blob list" where
  "inline_images ps = List.map_filter inlineData ps"

definition captions :: "part list \<Rightarrow> string list" where
  "captions ps =
     List.map_filter (\<lambda>p. case inlineData p of
                              Some blob \<Rightarrow> None
                            | None \<Rightarrow> (case part_text p of
                                          None \<Rightarrow> None
                                        | Some t \<Rightarrow> if t = [] then None else Some t)) ps"

text \<open>
  The citations of a list of grounding chunks, in order, and a citation normalized:
  the title defaults to "Source" (and the uri to the empty string) when absent or
  empty.
\<close>

definition citations :: "grounding_chunk list \<Rightarrow> grounding_web list" where
  "citations chunks = List.map_filter web chunks"

definition normalize_citation :: "grounding_web \<Rightarrow> web_source" where
  "normalize_citation w =
     \<lparr>uri = (case web_uri w of None \<Rightarrow> [] | Some u \<Rightarrow> u),
      title = (case web_title w of
                 None \<Rightarrow> ''Source''
               | Some t \<Rightarrow> if t = [] then ''Source'' else t)\<rparr>"

text \<open>The decision response carries no action request.\<close>

definition no_action_request :: "response \<Rightarrow> bool" where
  "no_action_request r = (functionCalls r = None \<or> functionCalls r = Some [])"

text \<open>
  The router answers with free text: there is no action request, or the first one names
  none of the three dispatch actions.
\<close>

definition answers_with_text :: "response \<Rightarrow> bool" where
  "answers_with_text r =
     (case functionCalls r of
        Some (call # others) \<Rightarrow>
          name call \<noteq> Some ''dispatch_create_image'' \<and>
          name call \<noteq> Some ''dispatch_speak_text'' \<and>
          name call \<noteq> Some ''dispatch_write_code''
      | _ \<Rightarrow> True)"

text \<open>The web sources of a message are absent or a non-empty list.\<close>

definition webSources_ok :: "message \<Rightarrow> bool" where
  "webSources_ok m = (case metadata m of None \<Rightarrow> True | Some md \<Rightarrow> webSources md \<noteq> Some [])"

text \<open>
  The portion of a string after its first comma (empty when there is none), and the
  portion of a string before its first comma (all of it when there is none).
\<close>

definition after_first_comma :: "string \<Rightarrow> string" where
  "after_first_comma s = tl (dropWhile (\<lambda>c. c \<noteq> CHR '','') s)"

definition up_to_comma :: "string \<Rightarrow> string" where
  "up_to_comma s = takeWhile (\<lambda>c. c \<noteq> CHR '','') s"

text \<open>Sample inputs for the closed instances below.\<close>

definition sample_two_comma_attachment :: string where
  "sample_two_comma_attachment = ''data:image/png;base64,AAAA,BBBB''"

definition blank_response :: response where
  "blank_response = \<lparr>functionCalls = None, resp_text = Some [], candidates = None\<rparr>"

definition sample_argless_response :: response where
  "sample_argless_response =
     \<lparr>functionCalls = Some [\<lparr>name = Some ''dispatch_create_image'', args = None\<rparr>],
      resp_text = None, candidates = None\<rparr>"

definition sample_dispatch_response :: response where
  "sample_dispatch_response =
     \<lparr>functionCalls = Some
        [\<lparr>name = Some ''dispatch_write_code'',
          args = Some [''task_description'' \<mapsto> ''reverse a string'']\<rparr>,
         \<lparr>name = Some ''dispatch_create_image'', args = Some [''prompt'' \<mapsto> ''a fox'']\<rparr>],
      resp_text = None, candidates = None\<rparr>"

definition sample_caption_response :: response where
  "sample_caption_response =
     \<lparr>functionCalls = None, resp_text = None,
      candidates = Some [\<lparr>cand_content = Some \<lparr>parts = Some
         [\<lparr>inlineData = None, part_text = Some ''A fox.''\<rparr>,
          \<lparr>inlineData = Some \<lparr>data = Some ''iVBORw0KGgo='', mimeType = Some ''image/png''\<rparr>,
           part_text = None\<rparr>]\<rparr>,
        groundingMetadata = None\<rparr>]\<rparr>"

definition sample_grounded_response :: response where
  "sample_grounded_response =
     \<lparr>functionCalls = None, resp_text = Some ''Sunny.'',
      candidates = Some [\<lparr>cand_content = None,
        groundingMetadata = Some \<lparr>groundingChunks = Some
          [\<lparr>web = Some \<lparr>web_uri = Some ''https://a'', web_title = Some ''''\<rparr>\<rparr>]\<rparr>\<rparr>]\<rparr>"

definition sample_image_response :: response where
  "sample_image_response =
     \<lparr>functionCalls = None, resp_text = None,
      candidates = Some [\<lparr>cand_content = Some \<lparr>parts = Some
         [\<lparr>inlineData = Some \<lparr>data = Some ''iVBORw0KGgo='', mimeType = Some ''image/png''\<rparr>,
           part_text = None\<rparr>]\<rparr>,
        groundingMetadata = None\<rparr>]\<rparr>"

definition sample_attachment :: string where
  "sample_attachment = ''data:image/png;base64,iVBORw0KGgo=''"


section \<open>Requests sent by the handlers\<close>

lemma await_generateContent:
  "await (generateContent ai req) k =
     (case ai req of
        Inl e \<Rightarrow> ([req], Inl e)
      | Inr r \<Rightarrow> (req # fst (k r), snd (k r)))"
  by (simp add: await_def generateContent_def split: sum.split prod.split)

lemma fst_try_catch_catch_block: "fst (try_catch p (catch_block now)) = fst p"
  by (cases p)
     (simp add: try_catch_def catch_block_def resolve_def throw_def split: sum.split thrown.split)

lemma snd_try_catch_catch_block:
  "snd (try_catch p (catch_block now)) =
     (case snd p of
        Inl ThrownUndefined \<Rightarrow> Inl (Thrown (type_error_undefined ''message''))
      | Inl ThrownNull \<Rightarrow> Inl (Thrown (type_error_null ''message''))
      | Inl (Thrown e) \<Rightarrow> Inr (error_message now e)
      | Inr m \<Rightarrow> Inr m)"
  by (cases p)
     (simp add: try_catch_def catch_block_def resolve_def throw_def split: sum.split thrown.split)

lemma generateCode_sent: "fst (generateCode ai now prompt history) = [code_request prompt]"
  by (simp add: generateCode_def await_generateContent resolve_def split: sum.split)

lemma generateImage_sent: "fst (generateImage ai now prompt) = [image_request prompt]"
  by (simp add: generateImage_def await_generateContent resolve_def Let_def split: sum.split prod.split)

lemma generateSpeech_sent: "fst (generateSpeech ai now prompt) = [speech_request prompt]"
  by (simp add: generateSpeech_def await_generateContent resolve_def throw_def Let_def split: sum.split)

lemma analyzeContent_sent:
  "fst (analyzeContent ai now prompt history img) = [analyze_request prompt img]"
  by (simp add: analyzeContent_def await_generateContent resolve_def split: sum.split)

lemma tools_orchestrator_request:
  "Option.bind (config (orchestrator_request p)) tools = Some orchestratorTools"
  by (simp add: orchestrator_request_def no_config_def)

lemma orchestrator_request_neq_image: "image_request q \<noteq> orchestrator_request p"
proof
  assume "image_request q = orchestrator_request p"
  then have "Option.bind (config (image_request q)) tools = Some orchestratorTools"
    by (simp only: tools_orchestrator_request)
  then show False
    by (simp add: image_request_def)
qed

lemma orchestrator_request_neq_speech: "speech_request q \<noteq> orchestrator_request p"
proof
  assume "speech_request q = orchestrator_request p"
  then have "Option.bind (config (speech_request q)) tools = Some orchestratorTools"
    by (simp only: tools_orchestrator_request)
  then show False
    by (simp add: speech_request_def no_config_def)
qed

lemma orchestrator_request_neq_code: "code_request q \<noteq> orchestrator_request p"
proof
  assume "code_request q = orchestrator_request p"
  then have "Option.bind (config (code_request q)) tools = Some orchestratorTools"
    by (simp only: tools_orchestrator_request)
  then show False
    by (simp add: code_request_def no_config_def)
qed

lemma orchestrator_request_neq_analyze: "analyze_request q img \<noteq> orchestrator_request p"
proof
  assume "analyze_request q img = orchestrator_request p"
  then have "Option.bind (config (analyze_request q img)) tools = Some orchestratorTools"
    by (simp only: tools_orchestrator_request)
  then show False
    by (simp add: analyze_request_def no_config_def)
qed

section \<open>Properties\<close>

text \<open>
  C9. The code handler takes the conversation history but never reads it: for any two
  histories it sends the same single request, built from the prompt alone, and returns
  the same result.
\<close>

theorem generateCode_history_independent:
  "generateCode ai now prompt history1 = generateCode ai now prompt history2 \<and>
   fst (generateCode ai now prompt history1) = [code_request prompt]"
  by (simp add: generateCode_sent) (simp add: generateCode_def)

subsection \<open>Manual modes\<close>

lemma manual_try:
  "generateResponse_try ai now p ARTIST h att = generateImage ai now (Some p)"
  "generateResponse_try ai now p SPEAKER h att = generateSpeech ai now (Some p)"
  "generateResponse_try ai now p CODER h att = generateCode ai now (Some p) h"
  "generateResponse_try ai now p ANALYST h att = analyzeContent ai now (Some p) h att"
  "generateResponse_try ai now p ORCHESTRATOR h att = runOrchestrator ai now (Some p) h att"
  by (simp_all add: generateResponse_try_def)

lemma manual_sent:
  "mode \<noteq> ORCHESTRATOR \<Longrightarrow>
   orchestrator_request q \<notin> set (fst (generateResponse_try ai now p mode h att))"
  by (cases mode)
     (simp_all add: manual_try generateImage_sent generateSpeech_sent generateCode_sent
        analyzeContent_sent orchestrator_request_neq_image orchestrator_request_neq_speech
        orchestrator_request_neq_code orchestrator_request_neq_analyze
        orchestrator_request_neq_image [symmetric] orchestrator_request_neq_speech [symmetric]
        orchestrator_request_neq_code [symmetric] orchestrator_request_neq_analyze [symmetric])

text \<open>
  C2. In a manual mode (any mode but the orchestrator) \<open>generateResponse\<close> runs the
  handler bound to the mode inside its try block: ARTIST \<open>generateImage\<close>, SPEAKER
  \<open>generateSpeech\<close>, CODER \<open>generateCode\<close>, ANALYST \<open>analyzeContent\<close>. The
  requests sent are the handler's, the router's decision request is never among them,
  and a result the handler returns is returned as it is.
\<close>

theorem manual_mode_invokes_bound_handler:
  "generateResponse ai now p ARTIST h att =
     try_catch (generateImage ai now (Some p)) (catch_block now) \<and>
   generateResponse ai now p SPEAKER h att =
     try_catch (generateSpeech ai now (Some p)) (catch_block now) \<and>
   generateResponse ai now p CODER h att =
     try_catch (generateCode ai now (Some p) h) (catch_block now) \<and>
   generateResponse ai now p ANALYST h att =
     try_catch (analyzeContent ai now (Some p) h att) (catch_block now) \<and>
   (mode \<noteq> ORCHESTRATOR \<longrightarrow>
      orchestrator_request q \<notin> set (fst (generateResponse ai now p mode h att)) \<and>
      fst (generateResponse ai now p mode h att) =
        fst (generateResponse_try ai now p mode h att) \<and>
      (\<forall>m. snd (generateResponse_try ai now p mode h att) = Inr m \<longrightarrow>
           snd (generateResponse ai now p mode h att) = Inr m))"
  by (simp add: generateResponse_def manual_try fst_try_catch_catch_block snd_try_catch_catch_block
        manual_sent)

theorem manual_mode_invokes_bound_handler_witness:
  "ARTIST \<noteq> ORCHESTRATOR \<and>
   fst (generateResponse (const_remote sample_image_response) 7 ''a red fox'' ARTIST [] None) =
     [image_request (Some ''a red fox'')] \<and>
   orchestrator_request (Some ''a red fox'') \<notin>
     set (fst (generateResponse (const_remote sample_image_response) 7 ''a red fox'' ARTIST [] None))"
  using manual_mode_invokes_bound_handler
      [of "const_remote sample_image_response" 7 "''a red fox''" "[]" None ARTIST
          "Some ''a red fox''"]
  by (auto simp: manual_try generateImage_sent)

subsection \<open>Attachments in automatic mode\<close>

text \<open>
  C3. In automatic mode with an image attachment present (a non-empty string), the
  vision-analysis handler is called with the prompt, the history and the attachment,
  whatever the prompt says; the only request sent is the analysis request, and no
  decision request is issued.
\<close>

theorem attachment_skips_intent_detection:
  assumes "truthy imageAttachment"
  shows "runOrchestrator ai now prompt history imageAttachment =
           analyzeContent ai now prompt history imageAttachment \<and>
         generateResponse ai now p ORCHESTRATOR history imageAttachment =
           try_catch (analyzeContent ai now (Some p) history imageAttachment)
             (catch_block now) \<and>
         fst (generateResponse ai now p ORCHESTRATOR history imageAttachment) =
           [analyze_request (Some p) imageAttachment] \<and>
         orchestrator_request q \<notin>
           set (fst (generateResponse ai now p ORCHESTRATOR history imageAttachment))"
  using assms
  by (simp add: runOrchestrator_def generateResponse_def manual_try fst_try_catch_catch_block
        analyzeContent_sent orchestrator_request_neq_analyze [symmetric])

theorem attachment_skips_intent_detection_witness:
  "truthy (Some sample_attachment) \<and>
   fst (generateResponse (const_remote empty_response) 0 ''draw me a cat'' ORCHESTRATOR []
          (Some sample_attachment)) =
     [analyze_request (Some ''draw me a cat'') (Some sample_attachment)] \<and>
   orchestrator_request (Some ''draw me a cat'') \<notin>
     set (fst (generateResponse (const_remote empty_response) 0 ''draw me a cat'' ORCHESTRATOR []
            (Some sample_attachment)))"
proof -
  have t: "truthy (Some sample_attachment)"
    by (simp add: truthy_def sample_attachment_def)
  show ?thesis
    using t attachment_skips_intent_detection [OF t, of "const_remote empty_response" 0
        "Some ''draw me a cat''" "[]" "''draw me a cat''" "Some ''draw me a cat''"]
    by blast
qed

subsection \<open>Failures\<close>




lemma generateText_role:
  "snd (generateText ai now prompt history) = Inr m \<Longrightarrow> role m = Some Model"
  by (auto simp: generateText_def await_generateContent resolve_def split: sum.splits)

lemma generateCode_role:
  "snd (generateCode ai now prompt history) = Inr m \<Longrightarrow> role m = Some Model"
  by (auto simp: generateCode_def await_generateContent resolve_def split: sum.splits)

lemma generateImage_role:
  "snd (generateImage ai now prompt) = Inr m \<Longrightarrow> role m = Some Model"
  by (auto simp: generateImage_def await_generateContent resolve_def Let_def
        split: sum.splits prod.splits if_splits)

lemma generateSpeech_role:
  "snd (generateSpeech ai now prompt) = Inr m \<Longrightarrow> role m = Some Model"
  by (auto simp: generateSpeech_def await_generateContent resolve_def throw_def Let_def
        split: sum.splits if_splits)

lemma analyzeContent_role:
  "snd (analyzeContent ai now prompt history img) = Inr m \<Longrightarrow> role m = Some Model"
  by (auto simp: analyzeContent_def await_generateContent resolve_def split: sum.splits)

lemma text_answer_role: "snd (text_answer now response) = Inr m \<Longrightarrow> role m = Some Model"
  by (auto simp: text_answer_def resolve_def Let_def)

lemma snd_await_call_arg:
  "snd (await (call_arg call key) k) = Inr m \<Longrightarrow> \<exists>v. snd (k v) = Inr m"
  by (auto simp: await_def call_arg_def throw_def resolve_def split: option.splits prod.splits)

lemma route_call_role:
  "snd (route_call ai now history response call) = Inr m \<Longrightarrow> role m = Some Model"
  unfolding route_call_def
  by (auto split: if_splits dest!: snd_await_call_arg
        dest: generateImage_role generateSpeech_role generateCode_role text_answer_role)

lemma runOrchestrator_role:
  assumes "snd (runOrchestrator ai now prompt history img) = Inr m"
  shows "role m = Some Model"
proof (cases "truthy img")
  case True
  with assms show ?thesis
    by (simp add: runOrchestrator_def analyzeContent_role)
next
  case False
  with assms show ?thesis
    by (auto simp: runOrchestrator_def await_generateContent
          split: sum.splits option.splits list.splits
          dest: route_call_role text_answer_role)
qed

lemma generateResponse_try_role:
  "snd (generateResponse_try ai now p mode history att) = Inr m \<Longrightarrow> role m = Some Model"
  by (cases mode)
     (auto simp: manual_try
        dest: runOrchestrator_role generateImage_role generateSpeech_role generateCode_role
          analyzeContent_role)

lemma rejects_nullishI: "ai req = Inl t \<Longrightarrow> nullish t \<Longrightarrow> \<exists>req. rejects_nullish (ai req)"
  by (rule exI [of _ req]) (simp add: rejects_nullish_def)

lemma generateCode_nullish:
  "snd (generateCode ai now prompt history) = Inl t \<Longrightarrow> nullish t \<Longrightarrow>
   \<exists>req. rejects_nullish (ai req)"
  by (auto simp: generateCode_def await_generateContent resolve_def
        split: sum.splits intro: rejects_nullishI)

lemma generateImage_nullish:
  "snd (generateImage ai now prompt) = Inl t \<Longrightarrow> nullish t \<Longrightarrow>
   \<exists>req. rejects_nullish (ai req)"
  by (auto simp: generateImage_def await_generateContent resolve_def Let_def
        split: sum.splits prod.splits if_splits intro: rejects_nullishI)

lemma generateSpeech_nullish:
  "snd (generateSpeech ai now prompt) = Inl t \<Longrightarrow> nullish t \<Longrightarrow>
   \<exists>req. rejects_nullish (ai req)"
  by (auto simp: generateSpeech_def await_generateContent resolve_def throw_def Let_def
        split: sum.splits if_splits intro: rejects_nullishI)
     (simp add: nullish_def)

lemma analyzeContent_nullish:
  "snd (analyzeContent ai now prompt history img) = Inl t \<Longrightarrow> nullish t \<Longrightarrow>
   \<exists>req. rejects_nullish (ai req)"
  by (auto simp: analyzeContent_def await_generateContent resolve_def
        split: sum.splits intro: rejects_nullishI)

lemma text_answer_resolves: "snd (text_answer now response) \<noteq> Inl t"
  by (simp add: text_answer_def resolve_def Let_def)

lemma snd_await_call_arg_nullish:
  "snd (await (call_arg call key) k) = Inl t \<Longrightarrow> nullish t \<Longrightarrow> \<exists>v. snd (k v) = Inl t"
  by (auto simp: await_def call_arg_def throw_def resolve_def nullish_def
        split: option.splits prod.splits)

lemma route_call_nullish:
  "snd (route_call ai now history response call) = Inl t \<Longrightarrow> nullish t \<Longrightarrow>
   \<exists>req. rejects_nullish (ai req)"
  unfolding route_call_def
  by (auto simp: text_answer_resolves split: if_splits dest!: snd_await_call_arg_nullish
        dest: generateImage_nullish generateSpeech_nullish generateCode_nullish)

lemma runOrchestrator_nullish:
  assumes "snd (runOrchestrator ai now prompt history img) = Inl t" and "nullish t"
  shows "\<exists>req. rejects_nullish (ai req)"
proof (cases "truthy img")
  case True
  with assms show ?thesis
    by (simp add: runOrchestrator_def analyzeContent_nullish)
next
  case False
  with assms show ?thesis
    by (auto simp: runOrchestrator_def await_generateContent text_answer_resolves
          split: sum.splits option.splits list.splits
          dest: route_call_nullish intro: rejects_nullishI)
qed

lemma generateResponse_try_nullish:
  "snd (generateResponse_try ai now p mode history att) = Inl t \<Longrightarrow> nullish t \<Longrightarrow>
   \<exists>req. rejects_nullish (ai req)"
  by (cases mode)
     (auto simp: manual_try
        dest: runOrchestrator_nullish generateImage_nullish generateSpeech_nullish
          generateCode_nullish analyzeContent_nullish)

text \<open>
  C10, as stated, fails: when the remote call is rejected with \<^verbatim>\<open>undefined\<close>, the
  catch block throws on reading \<^verbatim>\<open>error.message\<close>, and \<open>generateResponse\<close> is
  rejected with that TypeError.
\<close>

theorem generateResponse_resolves_counterexample:
  "generateResponse (rejecting_remote ThrownUndefined) 0 ''hello'' SPEAKER [] None =
     ([speech_request (Some ''hello'')], Inl (Thrown (type_error_undefined ''message'')))"
  by (simp add: generateResponse_def manual_try generateSpeech_def await_generateContent
        rejecting_remote_def try_catch_def catch_block_def throw_def)

text \<open>
  C10, amended. For every prompt, mode, history and attachment: if the remote service
  never rejects a call with \<^verbatim>\<open>undefined\<close> or \<^verbatim>\<open>null\<close>, then
  \<open>generateResponse\<close> returns a message (its promise is not rejected), every other
  failure yielding a returned message; a message it returns always has role model; and
  when the try block throws \<^verbatim>\<open>undefined\<close> or \<^verbatim>\<open>null\<close>, \<open>generateResponse\<close> is
  rejected with the TypeError of the catch block.
\<close>

theorem generateResponse_resolves:
  "((\<forall>req. \<not> rejects_nullish (ai req)) \<longrightarrow>
      (\<exists>m. snd (generateResponse ai now p mode history att) = Inr m \<and> role m = Some Model)) \<and>
   (snd (generateResponse ai now p mode history att) = Inr m \<longrightarrow> role m = Some Model) \<and>
   (snd (generateResponse_try ai now p mode history att) = Inl ThrownUndefined \<longrightarrow>
      snd (generateResponse ai now p mode history att) =
        Inl (Thrown (type_error_undefined ''message''))) \<and>
   (snd (generateResponse_try ai now p mode history att) = Inl ThrownNull \<longrightarrow>
      snd (generateResponse ai now p mode history att) =
        Inl (Thrown (type_error_null ''message'')))"
proof (intro conjI impI)
  assume ok: "\<forall>req. \<not> rejects_nullish (ai req)"
  show "\<exists>m. snd (generateResponse ai now p mode history att) = Inr m \<and> role m = Some Model"
  proof (cases "snd (generateResponse_try ai now p mode history att)")
    case (Inl t)
    with ok have "\<not> nullish t"
      using generateResponse_try_nullish [of ai now p mode history att t] by blast
    then obtain e where "t = Thrown e"
      by (cases t) (simp_all add: nullish_def)
    with Inl show ?thesis
      by (simp add: generateResponse_def snd_try_catch_catch_block error_message_def)
  next
    case (Inr m')
    then show ?thesis
      by (simp add: generateResponse_def snd_try_catch_catch_block generateResponse_try_role)
  qed
next
  assume r: "snd (generateResponse ai now p mode history att) = Inr m"
  show "role m = Some Model"
  proof (cases "snd (generateResponse_try ai now p mode history att)")
    case (Inl t)
    with r show ?thesis
      by (cases t)
         (auto simp: generateResponse_def snd_try_catch_catch_block error_message_def)
  next
    case (Inr m')
    with r show ?thesis
      by (simp add: generateResponse_def snd_try_catch_catch_block generateResponse_try_role)
  qed
next
  assume "snd (generateResponse_try ai now p mode history att) = Inl ThrownUndefined"
  then show "snd (generateResponse ai now p mode history att) =
      Inl (Thrown (type_error_undefined ''message''))"
    by (simp add: generateResponse_def snd_try_catch_catch_block)
next
  assume "snd (generateResponse_try ai now p mode history att) = Inl ThrownNull"
  then show "snd (generateResponse ai now p mode history att) =
      Inl (Thrown (type_error_null ''message''))"
    by (simp add: generateResponse_def snd_try_catch_catch_block)
qed

theorem generateResponse_resolves_witness:
  "(\<forall>req. \<not> rejects_nullish (const_remote empty_response req)) \<and>
   (\<exists>m. snd (generateResponse (const_remote empty_response) 1 ''hi'' CODER [] None) = Inr m \<and>
      role m = Some Model) \<and>
   snd (generateResponse_try (rejecting_remote ThrownUndefined) 1 ''hi'' CODER [] None) =
     Inl ThrownUndefined \<and>
   snd (generateResponse (rejecting_remote ThrownUndefined) 1 ''hi'' CODER [] None) =
     Inl (Thrown (type_error_undefined ''message'')) \<and>
   snd (generateResponse_try (rejecting_remote ThrownNull) 1 ''hi'' CODER [] None) =
     Inl ThrownNull \<and>
   snd (generateResponse (rejecting_remote ThrownNull) 1 ''hi'' CODER [] None) =
     Inl (Thrown (type_error_null ''message''))"
proof -
  have a: "\<forall>req. \<not> rejects_nullish (const_remote empty_response req)"
    by (simp add: rejects_nullish_def const_remote_def)
  have b: "snd (generateResponse_try (rejecting_remote ThrownUndefined) 1 ''hi'' CODER [] None) =
     Inl ThrownUndefined"
    and c: "snd (generateResponse_try (rejecting_remote ThrownNull) 1 ''hi'' CODER [] None) =
     Inl ThrownNull"
    by (simp_all add: manual_try generateCode_def await_generateContent rejecting_remote_def)
  show ?thesis
    using a b c
      generateResponse_resolves [of "const_remote empty_response" 1 "''hi''" CODER "[]" None]
      generateResponse_resolves [of "rejecting_remote ThrownUndefined" 1 "''hi''" CODER "[]" None]
      generateResponse_resolves [of "rejecting_remote ThrownNull" 1 "''hi''" CODER "[]" None]
    by blast
qed

subsection \<open>The image handler\<close>

lemma image_parts_loop_eq:
  "image_parts_loop ps (u, t) =
     (if inline_images ps = [] then u
      else ''data:image/png;base64,'' @ template (data (last (inline_images ps))),
      if captions ps = [] then t else last (captions ps))"
  by (induction ps arbitrary: u t)
     (auto simp: inline_images_def captions_def List.map_filter_simps split: option.splits)

lemma last_captions_nonempty: "captions ps \<noteq> [] \<Longrightarrow> last (captions ps) \<noteq> []"
proof -
  assume ne: "captions ps \<noteq> []"
  have "\<forall>t \<in> set (captions ps). t \<noteq> []"
    by (auto simp: captions_def List.map_filter_def split: option.splits if_splits)
  with ne show ?thesis
    using last_in_set by blast
qed

lemma generateImage_eq:
  assumes "ai (image_request prompt) = Inr resp"
  shows "generateImage ai now prompt =
     ([image_request prompt],
      Inr (if inline_images (response_parts resp) = [] then
             \<lparr>msg_id = None, role = Some Model,
               content = Some ''I couldn't generate an image. Please try a different prompt.'',
               msg_type = Some Text, timestamp = Some now, metadata = None\<rparr>
           else
             \<lparr>msg_id = None, role = Some Model,
               content = Some (if captions (response_parts resp) = []
                               then ''Generated: '' @ template prompt
                               else last (captions (response_parts resp))),
               msg_type = Some Image, timestamp = Some now,
               metadata = Some (no_metadata\<lparr>imageUrl := Some (''data:image/png;base64,'' @
                  template (data (last (inline_images (response_parts resp)))))\<rparr>)\<rparr>))"
proof (cases "candidate_parts resp")
  case None
  with assms show ?thesis
    by (simp add: generateImage_def await_generateContent response_parts_def resolve_def
          inline_images_def List.map_filter_simps)
next
  case (Some ps)
  with assms show ?thesis
    by (simp add: generateImage_def await_generateContent response_parts_def resolve_def
          image_parts_loop_eq or_else_def last_captions_nonempty)
qed

text \<open>
  C5. For every prompt, when the remote call returns a response: if the response
  carries an inline image payload, the image handler returns a message of type image
  whose imageUrl is a data URI starting with "data:image/png;base64," and whose
  content is the caption (the last non-empty text part) or else the synthesized caption
  "Generated: " followed by the prompt; if it carries none, the handler returns a
  message of type text explaining the failure, not one of type error.
\<close>

theorem generateImage_result:
  assumes "ai (image_request prompt) = Inr resp"
  shows "(inline_images (response_parts resp) \<noteq> [] \<longrightarrow>
           (\<exists>payload. snd (generateImage ai now prompt) =
              Inr \<lparr>msg_id = None, role = Some Model,
                content = Some (if captions (response_parts resp) = []
                                then ''Generated: '' @ template prompt
                                else last (captions (response_parts resp))),
                msg_type = Some Image, timestamp = Some now,
                metadata = Some (no_metadata\<lparr>imageUrl :=
                  Some (''data:image/png;base64,'' @ payload)\<rparr>)\<rparr>)) \<and>
         (inline_images (response_parts resp) = [] \<longrightarrow>
            snd (generateImage ai now prompt) =
              Inr \<lparr>msg_id = None, role = Some Model,
                content = Some ''I couldn't generate an image. Please try a different prompt.'',
                msg_type = Some Text, timestamp = Some now, metadata = None\<rparr>)"
proof (intro conjI impI)
  assume "inline_images (response_parts resp) \<noteq> []"
  then have "snd (generateImage ai now prompt) =
      Inr \<lparr>msg_id = None, role = Some Model,
        content = Some (if captions (response_parts resp) = []
                        then ''Generated: '' @ template prompt
                        else last (captions (response_parts resp))),
        msg_type = Some Image, timestamp = Some now,
        metadata = Some (no_metadata\<lparr>imageUrl :=
          Some (''data:image/png;base64,'' @
            template (data (last (inline_images (response_parts resp)))))\<rparr>)\<rparr>"
    using generateImage_eq [of ai prompt resp now] assms by simp
  then show "\<exists>payload. snd (generateImage ai now prompt) =
      Inr \<lparr>msg_id = None, role = Some Model,
        content = Some (if captions (response_parts resp) = []
                        then ''Generated: '' @ template prompt
                        else last (captions (response_parts resp))),
        msg_type = Some Image, timestamp = Some now,
        metadata = Some (no_metadata\<lparr>imageUrl :=
          Some (''data:image/png;base64,'' @ payload)\<rparr>)\<rparr>"
    by (rule exI)
next
  assume "inline_images (response_parts resp) = []"
  then show "snd (generateImage ai now prompt) =
      Inr \<lparr>msg_id = None, role = Some Model,
        content = Some ''I couldn't generate an image. Please try a different prompt.'',
        msg_type = Some Text, timestamp = Some now, metadata = None\<rparr>"
    using generateImage_eq [of ai prompt resp now] assms by simp
qed

theorem generateImage_result_witness:
  "const_remote sample_caption_response (image_request (Some ''a red fox'')) =
     Inr sample_caption_response \<and>
   inline_images (response_parts sample_caption_response) \<noteq> [] \<and>
   inline_images (response_parts empty_response) = [] \<and>
   (\<exists>payload. snd (generateImage (const_remote sample_caption_response) 5 (Some ''a red fox'')) =
      Inr \<lparr>msg_id = None, role = Some Model, content = Some ''A fox.'',
        msg_type = Some Image, timestamp = Some 5,
        metadata = Some (no_metadata\<lparr>imageUrl :=
          Some (''data:image/png;base64,'' @ payload)\<rparr>)\<rparr>) \<and>
   snd (generateImage (const_remote empty_response) 5 (Some ''a red fox'')) =
     Inr \<lparr>msg_id = None, role = Some Model,
       content = Some ''I couldn't generate an image. Please try a different prompt.'',
       msg_type = Some Text, timestamp = Some 5, metadata = None\<rparr>"
proof -
  have a: "const_remote sample_caption_response (image_request (Some ''a red fox'')) =
             Inr sample_caption_response"
    and a': "const_remote empty_response (image_request (Some ''a red fox'')) = Inr empty_response"
    by (simp_all add: const_remote_def)
  have ps: "response_parts sample_caption_response =
      [\<lparr>inlineData = None, part_text = Some ''A fox.''\<rparr>,
       \<lparr>inlineData = Some \<lparr>data = Some ''iVBORw0KGgo='', mimeType = Some ''image/png''\<rparr>,
           part_text = None\<rparr>]"
    by (simp add: response_parts_def candidate_parts_def first_candidate_def
          sample_caption_response_def)
  have b: "inline_images (response_parts sample_caption_response) \<noteq> []"
    and c: "captions (response_parts sample_caption_response) = [''A fox.'']"
    by (simp_all add: ps inline_images_def captions_def List.map_filter_simps)
  have b': "inline_images (response_parts empty_response) = []"
    by (simp add: response_parts_def candidate_parts_def first_candidate_def
          empty_response_def inline_images_def List.map_filter_simps)
  have c': "(if captions (response_parts sample_caption_response) = []
             then ''Generated: '' @ template (Some ''a red fox'')
             else last (captions (response_parts sample_caption_response))) = ''A fox.''"
    by (simp add: c)
  show ?thesis
    using a a' b b'
      generateImage_result [of "const_remote sample_caption_response" "Some ''a red fox''"
        sample_caption_response 5]
      generateImage_result [of "const_remote empty_response" "Some ''a red fox''"
        empty_response 5]
    unfolding c' by blast
qed

subsection \<open>The text answer and its grounding\<close>

lemma push_web_sources_eq:
  "push_web_sources chunks acc = acc @ map normalize_citation (citations chunks)"
  by (induction chunks arbitrary: acc)
     (auto simp: citations_def List.map_filter_simps normalize_citation_def or_else_def
        split: option.splits)

lemma runOrchestrator_text_answer:
  assumes "\<not> truthy att" and "ai (orchestrator_request prompt) = Inr resp"
    and "no_action_request resp"
  shows "runOrchestrator ai now prompt history att =
           ([orchestrator_request prompt], snd (text_answer now resp))"
  using assms
  by (auto simp: runOrchestrator_def await_generateContent no_action_request_def
        text_answer_def resolve_def Let_def)

text \<open>
  C6. When the decision response carries grounding chunks and no action request, the
  web sources of the answer are the chunks' citations in their order, each normalized:
  uri and title are kept, the title becoming "Source" when absent or empty. The list
  [{uri: "https://a", title: ""}] normalizes to [{uri: "https://a", title: "Source"}].
\<close>

theorem citations_collected_in_order:
  assumes "\<not> truthy att" and "ai (orchestrator_request prompt) = Inr resp"
    and "no_action_request resp" and "grounding_chunks_of resp = Some chunks"
  shows "collect_web_sources resp = map normalize_citation (citations chunks) \<and>
         snd (runOrchestrator ai now prompt history att) =
           Inr \<lparr>msg_id = None, role = Some Model,
             content = Some (or_else (resp_text resp) ''I processed that request.''),
             msg_type = Some Text, timestamp = Some now,
             metadata = Some (no_metadata\<lparr>webSources :=
               (if citations chunks = [] then None
                else Some (map normalize_citation (citations chunks)))\<rparr>)\<rparr> \<and>
         normalize_citation \<lparr>web_uri = Some ''https://a'', web_title = Some ''''\<rparr> =
           \<lparr>uri = ''https://a'', title = ''Source''\<rparr> \<and>
         normalize_citation \<lparr>web_uri = Some ''https://a'', web_title = None\<rparr> =
           \<lparr>uri = ''https://a'', title = ''Source''\<rparr>"
proof -
  have c: "collect_web_sources resp = map normalize_citation (citations chunks)"
    using assms(4) by (simp add: collect_web_sources_def push_web_sources_eq)
  have "snd (runOrchestrator ai now prompt history att) = snd (text_answer now resp)"
    using runOrchestrator_text_answer [of att ai prompt resp now history] assms(1-3) by simp
  then show ?thesis
    using c by (simp add: text_answer_def resolve_def normalize_citation_def)
qed

theorem citations_collected_in_order_witness:
  "\<not> truthy None \<and>
   const_remote sample_grounded_response (orchestrator_request (Some ''weather in Tokyo'')) =
     Inr sample_grounded_response \<and>
   no_action_request sample_grounded_response \<and>
   grounding_chunks_of sample_grounded_response =
     Some [\<lparr>web = Some \<lparr>web_uri = Some ''https://a'', web_title = Some ''''\<rparr>\<rparr>] \<and>
   collect_web_sources sample_grounded_response = [\<lparr>uri = ''https://a'', title = ''Source''\<rparr>]"
proof -
  have a: "\<not> truthy None"
    by (simp add: truthy_def)
  have b: "const_remote sample_grounded_response (orchestrator_request (Some ''weather in Tokyo'')) =
     Inr sample_grounded_response"
    by (simp add: const_remote_def)
  have c: "no_action_request sample_grounded_response"
    by (simp add: no_action_request_def sample_grounded_response_def)
  have d: "grounding_chunks_of sample_grounded_response =
     Some [\<lparr>web = Some \<lparr>web_uri = Some ''https://a'', web_title = Some ''''\<rparr>\<rparr>]"
    by (simp add: grounding_chunks_of_def first_candidate_def sample_grounded_response_def)
  have e: "map normalize_citation
             (citations [\<lparr>web = Some \<lparr>web_uri = Some ''https://a'', web_title = Some ''''\<rparr>\<rparr>]) =
           [\<lparr>uri = ''https://a'', title = ''Source''\<rparr>]"
    by (simp add: citations_def List.map_filter_simps normalize_citation_def)
  show ?thesis
    using a b c d
      citations_collected_in_order [of None "const_remote sample_grounded_response"
        "Some ''weather in Tokyo''" sample_grounded_response
        "[\<lparr>web = Some \<lparr>web_uri = Some ''https://a'', web_title = Some ''''\<rparr>\<rparr>]" 0 "[]"]
    unfolding e by blast
qed

lemma generateCode_webSources:
  "snd (generateCode ai now prompt history) = Inr m \<Longrightarrow> webSources_ok m"
  by (auto simp: generateCode_def await_generateContent resolve_def webSources_ok_def
        no_metadata_def split: sum.splits)

lemma generateImage_webSources:
  "snd (generateImage ai now prompt) = Inr m \<Longrightarrow> webSources_ok m"
  by (auto simp: generateImage_def await_generateContent resolve_def Let_def webSources_ok_def
        no_metadata_def split: sum.splits prod.splits if_splits)

lemma generateSpeech_webSources:
  "snd (generateSpeech ai now prompt) = Inr m \<Longrightarrow> webSources_ok m"
  by (auto simp: generateSpeech_def await_generateContent resolve_def throw_def Let_def
        webSources_ok_def no_metadata_def split: sum.splits if_splits)

lemma analyzeContent_webSources:
  "snd (analyzeContent ai now prompt history img) = Inr m \<Longrightarrow> webSources_ok m"
  by (auto simp: analyzeContent_def await_generateContent resolve_def webSources_ok_def
        split: sum.splits)

lemma text_answer_webSources: "snd (text_answer now response) = Inr m \<Longrightarrow> webSources_ok m"
  by (auto simp: text_answer_def resolve_def Let_def webSources_ok_def no_metadata_def)

lemma route_call_webSources:
  "snd (route_call ai now history response call) = Inr m \<Longrightarrow> webSources_ok m"
  unfolding route_call_def
  by (auto split: if_splits dest!: snd_await_call_arg
        dest: generateImage_webSources generateSpeech_webSources generateCode_webSources
          text_answer_webSources)

lemma runOrchestrator_webSources:
  assumes "snd (runOrchestrator ai now prompt history img) = Inr m"
  shows "webSources_ok m"
proof (cases "truthy img")
  case True
  with assms show ?thesis
    by (simp add: runOrchestrator_def analyzeContent_webSources)
next
  case False
  with assms show ?thesis
    by (auto simp: runOrchestrator_def await_generateContent
          split: sum.splits option.splits list.splits
          dest: route_call_webSources text_answer_webSources)
qed

lemma runOrchestrator_answers_with_text:
  assumes "\<not> truthy att" and "ai (orchestrator_request prompt) = Inr resp"
    and "answers_with_text resp"
  shows "runOrchestrator ai now prompt history att =
           ([orchestrator_request prompt], snd (text_answer now resp))"
  using assms
  by (auto simp: runOrchestrator_def await_generateContent answers_with_text_def
        route_call_def text_answer_def resolve_def Let_def split: option.splits list.splits)

text \<open>
  C7. When the router answers with free text and the collected citation list is empty,
  the webSources field of the returned message's metadata is absent; and no message
  returned by the router ever carries an empty list of web sources.
\<close>

theorem empty_citations_omit_webSources:
  "(\<not> truthy att \<longrightarrow> ai (orchestrator_request prompt) = Inr resp \<longrightarrow>
    answers_with_text resp \<longrightarrow> collect_web_sources resp = [] \<longrightarrow>
      snd (runOrchestrator ai now prompt history att) =
        Inr \<lparr>msg_id = None, role = Some Model,
          content = Some (or_else (resp_text resp) ''I processed that request.''),
          msg_type = Some Text, timestamp = Some now,
          metadata = Some (no_metadata\<lparr>webSources := None\<rparr>)\<rparr>) \<and>
   (snd (runOrchestrator ai now prompt history att) = Inr m \<longrightarrow>
    metadata m = Some md \<longrightarrow> webSources md \<noteq> Some [])"
proof (intro conjI impI)
  assume "\<not> truthy att" and "ai (orchestrator_request prompt) = Inr resp"
    and "answers_with_text resp" and e: "collect_web_sources resp = []"
  then have "snd (runOrchestrator ai now prompt history att) = snd (text_answer now resp)"
    using runOrchestrator_answers_with_text [of att ai prompt resp now history] by simp
  then show "snd (runOrchestrator ai now prompt history att) =
        Inr \<lparr>msg_id = None, role = Some Model,
          content = Some (or_else (resp_text resp) ''I processed that request.''),
          msg_type = Some Text, timestamp = Some now,
          metadata = Some (no_metadata\<lparr>webSources := None\<rparr>)\<rparr>"
    using e by (simp add: text_answer_def resolve_def)
next
  assume "snd (runOrchestrator ai now prompt history att) = Inr m" and "metadata m = Some md"
  then show "webSources md \<noteq> Some []"
    using runOrchestrator_webSources [of ai now prompt history att m]
    by (simp add: webSources_ok_def)
qed

theorem empty_citations_omit_webSources_witness:
  "\<not> truthy None \<and>
   const_remote empty_response (orchestrator_request (Some ''hi'')) = Inr empty_response \<and>
   answers_with_text empty_response \<and> collect_web_sources empty_response = [] \<and>
   snd (runOrchestrator (const_remote empty_response) 9 (Some ''hi'') [] None) =
     Inr \<lparr>msg_id = None, role = Some Model, content = Some ''I processed that request.'',
       msg_type = Some Text, timestamp = Some 9,
       metadata = Some (no_metadata\<lparr>webSources := None\<rparr>)\<rparr> \<and>
   metadata \<lparr>msg_id = None, role = Some Model, content = Some ''I processed that request.'',
       msg_type = Some Text, timestamp = Some 9,
       metadata = Some (no_metadata\<lparr>webSources := None\<rparr>)\<rparr> =
     Some (no_metadata\<lparr>webSources := None\<rparr>) \<and>
   webSources (no_metadata\<lparr>webSources := None\<rparr>) \<noteq> Some []"
proof -
  have a: "\<not> truthy None"
    by (simp add: truthy_def)
  have b: "const_remote empty_response (orchestrator_request (Some ''hi'')) = Inr empty_response"
    by (simp add: const_remote_def)
  have c: "answers_with_text empty_response"
    by (simp add: answers_with_text_def empty_response_def)
  have d: "collect_web_sources empty_response = []"
    by (simp add: collect_web_sources_def grounding_chunks_of_def first_candidate_def
          empty_response_def)
  have e: "or_else (resp_text empty_response) ''I processed that request.'' =
           ''I processed that request.''"
    by (simp add: or_else_def empty_response_def)
  have f: "snd (runOrchestrator (const_remote empty_response) 9 (Some ''hi'') [] None) =
     Inr \<lparr>msg_id = None, role = Some Model, content = Some ''I processed that request.'',
       msg_type = Some Text, timestamp = Some 9,
       metadata = Some (no_metadata\<lparr>webSources := None\<rparr>)\<rparr>"
    using a b c d
      empty_citations_omit_webSources [of None "const_remote empty_response" "Some ''hi''"
        empty_response 9 "[]"]
    unfolding e by blast
  show ?thesis
    using a b c d f
      empty_citations_omit_webSources [of None "const_remote empty_response" "Some ''hi''"
        empty_response 9 "[]"
        "\<lparr>msg_id = None, role = Some Model, content = Some ''I processed that request.'',
          msg_type = Some Text, timestamp = Some 9,
          metadata = Some (no_metadata\<lparr>webSources := None\<rparr>)\<rparr>"
        "no_metadata\<lparr>webSources := None\<rparr>"]
    by simp
qed

subsection \<open>The vision-analysis handler\<close>

lemma split_nonempty: "split sep s \<noteq> []"
  by (induction s) (auto split: list.splits)

lemma split_eq:
  "split sep s =
     takeWhile (\<lambda>c. c \<noteq> sep) s #
       (if sep \<in> set s then split sep (tl (dropWhile (\<lambda>c. c \<noteq> sep) s)) else [])"
proof (induction s)
  case Nil
  show ?case by simp
next
  case (Cons c cs)
  show ?case
  proof (cases "c = sep")
    case True
    then show ?thesis by simp
  next
    case False
    then show ?thesis
      using Cons.IH by (auto split: list.splits)
  qed
qed

lemma index_split_1:
  "index (split sep s) (Suc 0) =
     (if sep \<in> set s
      then Some (takeWhile (\<lambda>c. c \<noteq> sep) (tl (dropWhile (\<lambda>c. c \<noteq> sep) s)))
      else None)"
proof (cases "sep \<in> set s")
  case True
  obtain seg segs where e: "split sep (tl (dropWhile (\<lambda>c. c \<noteq> sep) s)) = seg # segs"
    using split_nonempty [of sep "tl (dropWhile (\<lambda>c. c \<noteq> sep) s)"] by (auto simp: neq_Nil_conv)
  have "seg = takeWhile (\<lambda>c. c \<noteq> sep) (tl (dropWhile (\<lambda>c. c \<noteq> sep) s))"
    using e split_eq [of sep "tl (dropWhile (\<lambda>c. c \<noteq> sep) s)"] by simp
  then show ?thesis
    using True e split_eq [of sep s] by simp
next
  case False
  then show ?thesis
    using split_eq [of sep s] by simp
qed


lemma analyzeContent_eq:
  assumes "ai (analyze_request prompt img) = Inr resp"
  shows "analyzeContent ai now prompt history img =
     ([analyze_request prompt img],
      Inr \<lparr>msg_id = None, role = Some Model,
        content = Some (or_else (resp_text resp) ''Analysis complete.''),
        msg_type = Some Text, timestamp = Some now, metadata = None\<rparr>)"
  using assms by (simp add: analyzeContent_def await_generateContent resolve_def)

text \<open>
  C8, as stated, fails: the payload forwarded is not always the portion of the
  attachment after its first comma, and the content is not always the analysis text.
  For the attachment "data:image/png;base64,AAAA,BBBB" the payload sent is "AAAA",
  while the portion after the first comma is "AAAA,BBBB"; and for an empty analysis
  text the content is "Analysis complete.".
\<close>

theorem analyzeContent_payload_counterexample:
  "fst (analyzeContent (const_remote blank_response) 0 (Some ''describe'') []
          (Some sample_two_comma_attachment)) =
     [analyze_request (Some ''describe'') (Some sample_two_comma_attachment)] \<and>
   contents (analyze_request (Some ''describe'') (Some sample_two_comma_attachment)) =
     Parts [InlineDataPart ''image/png'' (Some ''AAAA''), TextPart (Some ''describe'')] \<and>
   after_first_comma sample_two_comma_attachment = ''AAAA,BBBB'' \<and>
   contents (analyze_request (Some ''describe'') (Some sample_two_comma_attachment)) \<noteq>
     Parts [InlineDataPart ''image/png'' (Some (after_first_comma sample_two_comma_attachment)),
            TextPart (Some ''describe'')] \<and>
   resp_text blank_response = Some [] \<and>
   snd (analyzeContent (const_remote blank_response) 0 (Some ''describe'') []
          (Some sample_two_comma_attachment)) =
     Inr \<lparr>msg_id = None, role = Some Model, content = Some ''Analysis complete.'',
       msg_type = Some Text, timestamp = Some 0, metadata = None\<rparr>"
proof -
  have a: "after_first_comma sample_two_comma_attachment = ''AAAA,BBBB''"
    by (simp add: after_first_comma_def sample_two_comma_attachment_def)
  have b: "contents (analyze_request (Some ''describe'') (Some sample_two_comma_attachment)) =
     Parts [InlineDataPart ''image/png'' (Some ''AAAA''), TextPart (Some ''describe'')]"
    by (simp add: analyze_request_def analyze_parts_def sample_two_comma_attachment_def)
  have c: "const_remote blank_response
             (analyze_request (Some ''describe'') (Some sample_two_comma_attachment)) =
           Inr blank_response"
    by (simp add: const_remote_def)
  have d: "or_else (resp_text blank_response) ''Analysis complete.'' = ''Analysis complete.''"
    by (simp add: or_else_def blank_response_def)
  show ?thesis
    using c analyzeContent_eq [of "const_remote blank_response" "Some ''describe''"
        "Some sample_two_comma_attachment" blank_response 0 "[]"]
    by (simp add: a b d) (simp add: blank_response_def)
qed

text \<open>
  C8, amended. For every call of the vision-analysis handler with a non-empty
  attachment, the handler sends one request whose image payload is the segment of the
  attachment between its first comma and the next comma (or the end of the string), and
  is undefined when the attachment has no comma; the segment is the whole portion after
  the first comma whenever that portion has no further comma. When the remote call
  returns, the result has type text, with the analysis text as content when it is
  non-empty and "Analysis complete." otherwise.
\<close>

theorem analyzeContent_payload:
  assumes "img \<noteq> []"
  shows "fst (analyzeContent ai now prompt history (Some img)) =
           [analyze_request prompt (Some img)] \<and>
         contents (analyze_request prompt (Some img)) =
           Parts [InlineDataPart ''image/png''
                    (if CHR '','' \<in> set img then Some (up_to_comma (after_first_comma img))
                     else None),
                  TextPart prompt] \<and>
         (CHR '','' \<notin> set (after_first_comma img) \<longrightarrow>
            up_to_comma (after_first_comma img) = after_first_comma img) \<and>
         (ai (analyze_request prompt (Some img)) = Inr resp \<longrightarrow>
            snd (analyzeContent ai now prompt history (Some img)) =
              Inr \<lparr>msg_id = None, role = Some Model,
                content = Some (or_else (resp_text resp) ''Analysis complete.''),
                msg_type = Some Text, timestamp = Some now, metadata = None\<rparr>)"
proof (intro conjI impI)
  show "fst (analyzeContent ai now prompt history (Some img)) = [analyze_request prompt (Some img)]"
    by (rule analyzeContent_sent)
  show "contents (analyze_request prompt (Some img)) =
          Parts [InlineDataPart ''image/png''
                   (if CHR '','' \<in> set img then Some (up_to_comma (after_first_comma img))
                    else None),
                 TextPart prompt]"
    using assms
    by (simp add: analyze_request_def analyze_parts_def index_split_1 up_to_comma_def
          after_first_comma_def)
  show "up_to_comma (after_first_comma img) = after_first_comma img"
    if "CHR '','' \<notin> set (after_first_comma img)"
    using that by (auto simp: up_to_comma_def takeWhile_eq_all_conv)
  show "snd (analyzeContent ai now prompt history (Some img)) =
          Inr \<lparr>msg_id = None, role = Some Model,
            content = Some (or_else (resp_text resp) ''Analysis complete.''),
            msg_type = Some Text, timestamp = Some now, metadata = None\<rparr>"
    if "ai (analyze_request prompt (Some img)) = Inr resp"
    using analyzeContent_eq [of ai prompt "Some img" resp now history] that by simp
qed

theorem analyzeContent_payload_witness:
  "sample_attachment \<noteq> [] \<and>
   CHR '','' \<notin> set (after_first_comma sample_attachment) \<and>
   after_first_comma sample_attachment = ''iVBORw0KGgo='' \<and>
   const_remote sample_grounded_response
     (analyze_request (Some ''what is this?'') (Some sample_attachment)) =
     Inr sample_grounded_response \<and>
   contents (analyze_request (Some ''what is this?'') (Some sample_attachment)) =
     Parts [InlineDataPart ''image/png'' (Some ''iVBORw0KGgo=''),
            TextPart (Some ''what is this?'')] \<and>
   snd (analyzeContent (const_remote sample_grounded_response) 2 (Some ''what is this?'') []
          (Some sample_attachment)) =
     Inr \<lparr>msg_id = None, role = Some Model, content = Some ''Sunny.'',
       msg_type = Some Text, timestamp = Some 2, metadata = None\<rparr>"
proof -
  have a: "sample_attachment \<noteq> []"
    by (simp add: sample_attachment_def)
  have b: "after_first_comma sample_attachment = ''iVBORw0KGgo=''"
    by (simp add: after_first_comma_def sample_attachment_def)
  have c: "CHR '','' \<notin> set (after_first_comma sample_attachment)"
    by (simp add: b)
  have d: "CHR '','' \<in> set sample_attachment"
    by (simp add: sample_attachment_def)
  have e: "const_remote sample_grounded_response
     (analyze_request (Some ''what is this?'') (Some sample_attachment)) =
     Inr sample_grounded_response"
    by (simp add: const_remote_def)
  have f: "or_else (resp_text sample_grounded_response) ''Analysis complete.'' = ''Sunny.''"
    by (simp add: or_else_def sample_grounded_response_def)
  show ?thesis
    using a b c d e
      analyzeContent_payload [OF a, of "const_remote sample_grounded_response" 2
        "Some ''what is this?''" "[]" sample_grounded_response]
    unfolding f by simp
qed

subsection \<open>The router\<close>

lemma generateImage_upd:
  "generateImage (ai(orchestrator_request p := r)) = generateImage ai"
  by (intro ext) (simp add: generateImage_def await_generateContent orchestrator_request_neq_image)

lemma generateSpeech_upd:
  "generateSpeech (ai(orchestrator_request p := r)) = generateSpeech ai"
  by (intro ext) (simp add: generateSpeech_def await_generateContent orchestrator_request_neq_speech)

lemma generateCode_upd:
  "generateCode (ai(orchestrator_request p := r)) = generateCode ai"
  by (intro ext) (simp add: generateCode_def await_generateContent orchestrator_request_neq_code)

lemma text_answer_functionCalls:
  "text_answer now (response\<lparr>functionCalls := calls\<rparr>) = text_answer now response"
  by (simp add: text_answer_def collect_web_sources_def grounding_chunks_of_def
        first_candidate_def)

lemma route_call_first_only:
  "route_call (ai(orchestrator_request prompt := r)) now history
     (response\<lparr>functionCalls := calls\<rparr>) call =
   route_call ai now history response call"
  by (simp add: route_call_def text_answer_functionCalls
        generateImage_upd generateSpeech_upd generateCode_upd)

lemma runOrchestrator_routes:
  assumes "\<not> truthy att" and "ai (orchestrator_request prompt) = Inr resp"
    and "functionCalls resp = Some (call # others)"
  shows "runOrchestrator ai now prompt history att =
           (orchestrator_request prompt # fst (route_call ai now history resp call),
            snd (route_call ai now history resp call))"
  using assms by (simp add: runOrchestrator_def await_generateContent)

lemma await_call_arg_Some:
  "args call = Some a \<Longrightarrow> await (call_arg call key) k = k (a key)"
  by (simp add: call_arg_def await_def resolve_def split: prod.split)

lemma route_call_image:
  "args call = Some a \<Longrightarrow> name call = Some ''dispatch_create_image'' \<Longrightarrow>
   route_call ai now history resp call = generateImage ai now (a ''prompt'')"
  by (simp add: route_call_def await_call_arg_Some)

lemma route_call_speech:
  "args call = Some a \<Longrightarrow> name call = Some ''dispatch_speak_text'' \<Longrightarrow>
   route_call ai now history resp call = generateSpeech ai now (a ''text'')"
  by (simp add: route_call_def await_call_arg_Some)

lemma route_call_code:
  "args call = Some a \<Longrightarrow> name call = Some ''dispatch_write_code'' \<Longrightarrow>
   route_call ai now history resp call = generateCode ai now (a ''task_description'') history"
  by (simp add: route_call_def await_call_arg_Some)

lemma await_call_arg_None:
  "args call = None \<Longrightarrow>
   await (call_arg call key) k = ([], Inl (Thrown (type_error_undefined key)))"
  by (simp add: call_arg_def await_def throw_def)

lemma route_call_image_no_args:
  "args call = None \<Longrightarrow> name call = Some ''dispatch_create_image'' \<Longrightarrow>
   route_call ai now history resp call = ([], Inl (Thrown (type_error_undefined ''prompt'')))"
  by (simp add: route_call_def await_call_arg_None)

lemma route_call_speech_no_args:
  "args call = None \<Longrightarrow> name call = Some ''dispatch_speak_text'' \<Longrightarrow>
   route_call ai now history resp call = ([], Inl (Thrown (type_error_undefined ''text'')))"
  by (simp add: route_call_def await_call_arg_None)

lemma route_call_code_no_args:
  "args call = None \<Longrightarrow> name call = Some ''dispatch_write_code'' \<Longrightarrow>
   route_call ai now history resp call =
     ([], Inl (Thrown (type_error_undefined ''task_description'')))"
  by (simp add: route_call_def await_call_arg_None)

text \<open>
  C1, as stated, fails: a decision response whose first action request is
  "dispatch_create_image" without an arguments object makes the read of
  \<^verbatim>\<open>args.prompt\<close> throw a TypeError; the decision request is the only request sent,
  and no handler is invoked.
\<close>

theorem first_action_only_counterexample:
  "functionCalls sample_argless_response =
     Some [\<lparr>name = Some ''dispatch_create_image'', args = None\<rparr>] \<and>
   runOrchestrator (const_remote sample_argless_response) 0 (Some ''draw a fox'') [] None =
     ([orchestrator_request (Some ''draw a fox'')],
      Inl (Thrown (type_error_undefined ''prompt''))) \<and>
   generateResponse (const_remote sample_argless_response) 0 ''draw a fox'' ORCHESTRATOR [] None =
     ([orchestrator_request (Some ''draw a fox'')],
      Inr (error_message 0 (type_error_undefined ''prompt'')))"
proof -
  have c: "functionCalls sample_argless_response =
     Some [\<lparr>name = Some ''dispatch_create_image'', args = None\<rparr>]"
    by (simp add: sample_argless_response_def)
  have r: "runOrchestrator (const_remote sample_argless_response) 0 (Some ''draw a fox'') [] None =
     ([orchestrator_request (Some ''draw a fox'')],
      Inl (Thrown (type_error_undefined ''prompt'')))"
    using runOrchestrator_routes [of None "const_remote sample_argless_response"
        "Some ''draw a fox''" sample_argless_response
        "\<lparr>name = Some ''dispatch_create_image'', args = None\<rparr>" "[]" 0 "[]"] c
    by (simp add: truthy_def const_remote_def route_call_image_no_args)
  show ?thesis
    using c r
    by (simp add: generateResponse_def manual_try try_catch_def catch_block_def resolve_def)
qed

text \<open>
  C1, amended. In automatic mode without attachment, when the decision response
  contains one or more action requests, only the first is acted upon: the run is the same
  as with a decision response holding the first request alone. When the first request
  carries an arguments object, "dispatch_create_image" calls the image handler with
  args.prompt, "dispatch_speak_text" the speech handler with args.text,
  "dispatch_write_code" the code handler with args.task_description, each argument
  passed on as it is; the conversation history goes to the code handler only. When the
  first request names one of these three actions and carries no arguments object, the
  read of the argument throws a TypeError and no handler is invoked.
\<close>

theorem first_action_only:
  assumes "\<not> truthy att" and "ai (orchestrator_request prompt) = Inr resp"
    and "functionCalls resp = Some (call # others)"
  shows "runOrchestrator ai now prompt history att =
           runOrchestrator
             (ai(orchestrator_request prompt := Inr (resp\<lparr>functionCalls := Some [call]\<rparr>)))
             now prompt history att \<and>
         (args call = Some a \<longrightarrow>
            (name call = Some ''dispatch_create_image'' \<longrightarrow>
               runOrchestrator ai now prompt history att =
                 (orchestrator_request prompt # fst (generateImage ai now (a ''prompt'')),
                  snd (generateImage ai now (a ''prompt'')))) \<and>
            (name call = Some ''dispatch_speak_text'' \<longrightarrow>
               runOrchestrator ai now prompt history att =
                 (orchestrator_request prompt # fst (generateSpeech ai now (a ''text'')),
                  snd (generateSpeech ai now (a ''text'')))) \<and>
            (name call = Some ''dispatch_write_code'' \<longrightarrow>
               runOrchestrator ai now prompt history att =
                 (orchestrator_request prompt #
                    fst (generateCode ai now (a ''task_description'') history),
                  snd (generateCode ai now (a ''task_description'') history)))) \<and>
         (args call = None \<longrightarrow>
            (name call = Some ''dispatch_create_image'' \<longrightarrow>
               runOrchestrator ai now prompt history att =
                 ([orchestrator_request prompt],
                  Inl (Thrown (type_error_undefined ''prompt'')))) \<and>
            (name call = Some ''dispatch_speak_text'' \<longrightarrow>
               runOrchestrator ai now prompt history att =
                 ([orchestrator_request prompt],
                  Inl (Thrown (type_error_undefined ''text'')))) \<and>
            (name call = Some ''dispatch_write_code'' \<longrightarrow>
               runOrchestrator ai now prompt history att =
                 ([orchestrator_request prompt],
                  Inl (Thrown (type_error_undefined ''task_description'')))))"
proof -
  let ?resp' = "resp\<lparr>functionCalls := Some [call]\<rparr>"
  let ?ai' = "ai(orchestrator_request prompt := Inr ?resp')"
  have r: "runOrchestrator ai now prompt history att =
           (orchestrator_request prompt # fst (route_call ai now history resp call),
            snd (route_call ai now history resp call))"
    using assms by (rule runOrchestrator_routes)
  have "?ai' (orchestrator_request prompt) = Inr ?resp'" and "functionCalls ?resp' = Some [call]"
    by simp_all
  then have "runOrchestrator ?ai' now prompt history att =
          (orchestrator_request prompt # fst (route_call ?ai' now history ?resp' call),
           snd (route_call ?ai' now history ?resp' call))"
    using runOrchestrator_routes [of att ?ai' prompt ?resp' call "[]" now history] assms(1)
    by blast
  then have first: "runOrchestrator ai now prompt history att =
      runOrchestrator ?ai' now prompt history att"
    using r by (simp only: route_call_first_only)
  have img: "runOrchestrator ai now prompt history att =
          (orchestrator_request prompt # fst (generateImage ai now (a ''prompt'')),
           snd (generateImage ai now (a ''prompt'')))"
    if "args call = Some a" and "name call = Some ''dispatch_create_image''"
    using r route_call_image [OF that] by simp
  have speech: "runOrchestrator ai now prompt history att =
          (orchestrator_request prompt # fst (generateSpeech ai now (a ''text'')),
           snd (generateSpeech ai now (a ''text'')))"
    if "args call = Some a" and "name call = Some ''dispatch_speak_text''"
    using r route_call_speech [OF that] by simp
  have code: "runOrchestrator ai now prompt history att =
          (orchestrator_request prompt #
             fst (generateCode ai now (a ''task_description'') history),
           snd (generateCode ai now (a ''task_description'') history))"
    if "args call = Some a" and "name call = Some ''dispatch_write_code''"
    using r route_call_code [OF that] by simp
  have img0: "runOrchestrator ai now prompt history att =
          ([orchestrator_request prompt], Inl (Thrown (type_error_undefined ''prompt'')))"
    if "args call = None" and "name call = Some ''dispatch_create_image''"
    using r route_call_image_no_args [OF that] by simp
  have speech0: "runOrchestrator ai now prompt history att =
          ([orchestrator_request prompt], Inl (Thrown (type_error_undefined ''text'')))"
    if "args call = None" and "name call = Some ''dispatch_speak_text''"
    using r route_call_speech_no_args [OF that] by simp
  have code0: "runOrchestrator ai now prompt history att =
          ([orchestrator_request prompt],
           Inl (Thrown (type_error_undefined ''task_description'')))"
    if "args call = None" and "name call = Some ''dispatch_write_code''"
    using r route_call_code_no_args [OF that] by simp
  show ?thesis
    using first img speech code img0 speech0 code0 by blast
qed

theorem first_action_only_witness:
  "\<not> truthy None \<and>
   const_remote sample_dispatch_response (orchestrator_request (Some ''reverse a string'')) =
     Inr sample_dispatch_response \<and>
   functionCalls sample_dispatch_response =
     Some [\<lparr>name = Some ''dispatch_write_code'',
             args = Some [''task_description'' \<mapsto> ''reverse a string'']\<rparr>,
           \<lparr>name = Some ''dispatch_create_image'', args = Some [''prompt'' \<mapsto> ''a fox'']\<rparr>] \<and>
   runOrchestrator (const_remote sample_dispatch_response) 4 (Some ''reverse a string'') [] None =
     (orchestrator_request (Some ''reverse a string'') #
        fst (generateCode (const_remote sample_dispatch_response) 4 (Some ''reverse a string'') []),
      snd (generateCode (const_remote sample_dispatch_response) 4 (Some ''reverse a string'') [])) \<and>
   const_remote sample_argless_response (orchestrator_request (Some ''draw a fox'')) =
     Inr sample_argless_response \<and>
   functionCalls sample_argless_response =
     Some [\<lparr>name = Some ''dispatch_create_image'', args = None\<rparr>] \<and>
   runOrchestrator (const_remote sample_argless_response) 4 (Some ''draw a fox'') [] None =
     ([orchestrator_request (Some ''draw a fox'')],
      Inl (Thrown (type_error_undefined ''prompt'')))"
proof -
  let ?call = "\<lparr>name = Some ''dispatch_write_code'',
                 args = Some [''task_description'' \<mapsto> ''reverse a string'']\<rparr>"
  let ?argless = "\<lparr>name = Some ''dispatch_create_image'', args = None\<rparr>"
  have a: "\<not> truthy None"
    by (simp add: truthy_def)
  have b: "const_remote sample_dispatch_response (orchestrator_request (Some ''reverse a string'')) =
     Inr sample_dispatch_response"
    and b0: "const_remote sample_argless_response (orchestrator_request (Some ''draw a fox'')) =
     Inr sample_argless_response"
    by (simp_all add: const_remote_def)
  have c: "functionCalls sample_dispatch_response =
     Some [?call,
           \<lparr>name = Some ''dispatch_create_image'', args = Some [''prompt'' \<mapsto> ''a fox'']\<rparr>]"
    by (simp add: sample_dispatch_response_def)
  have c0: "functionCalls sample_argless_response = Some [?argless]"
    by (simp add: sample_argless_response_def)
  have d: "args ?call = Some [''task_description'' \<mapsto> ''reverse a string'']"
    and e: "name ?call = Some ''dispatch_write_code''"
    and f: "[''task_description'' \<mapsto> ''reverse a string''] ''task_description'' =
            Some ''reverse a string''"
    and d0: "args ?argless = None"
    and e0: "name ?argless = Some ''dispatch_create_image''"
    by simp_all
  have g: "runOrchestrator (const_remote sample_dispatch_response) 4 (Some ''reverse a string'') []
        None =
     (orchestrator_request (Some ''reverse a string'') #
        fst (generateCode (const_remote sample_dispatch_response) 4 (Some ''reverse a string'') []),
      snd (generateCode (const_remote sample_dispatch_response) 4 (Some ''reverse a string'') []))"
    using a b c d e
      first_action_only [of None "const_remote sample_dispatch_response"
        "Some ''reverse a string''" sample_dispatch_response ?call
        "[\<lparr>name = Some ''dispatch_create_image'', args = Some [''prompt'' \<mapsto> ''a fox'']\<rparr>]"
        4 "[]" "[''task_description'' \<mapsto> ''reverse a string'']"]
    unfolding f by blast
  have g0: "runOrchestrator (const_remote sample_argless_response) 4 (Some ''draw a fox'') [] None =
     ([orchestrator_request (Some ''draw a fox'')],
      Inl (Thrown (type_error_undefined ''prompt'')))"
    using a b0 c0 d0 e0
      first_action_only [of None "const_remote sample_argless_response"
        "Some ''draw a fox''" sample_argless_response ?argless "[]" 4 "[]"]
    by blast
  show ?thesis
    using a b b0 c c0 g g0 by blast
qed

end
